theory Spec2Isabelle
  imports Main "HOL-Library.Word"
begin

unbundle bit_operations_syntax

section \<open>JNIHook: a shallow embedding of jnihook.cpp\<close>

text \<open>
  The library keeps two process-wide tables (\<open>g_hooks\<close>, \<open>g_class_file_cache\<close>), a
  class-load callback that the virtual machine drives, and the entry points
  \<open>JNIHook_Init\<close>, \<open>JNIHook_Attach\<close> and \<open>JNIHook_Shutdown\<close>. Every call into
  the virtual machine (JNI, JVMTI) is a call through a function table; here the table is
  a record of functions that says what the machine answers, and the part of the machine's
  state that the entry points change is carried in the state record.
\<close>

subsection \<open>Handles, result codes, outcomes\<close>

text \<open>Pointers and JNI handles are addresses; \<open>0\<close> is \<open>NULL\<close>.\<close>

type_synonym addr = nat
type_synonym jclass = nat
type_synonym jmethodID = nat
type_synonym jobject = nat

text \<open>
  The result codes that jnihook.cpp returns (the enumeration itself is declared in
  jnihook.h; these are the enumerators the source names).
\<close>

datatype jnihook_result_t =
    JNIHOOK_OK
  | JNIHOOK_ERR_GET_JVM
  | JNIHOOK_ERR_GET_JVMTI
  | JNIHOOK_ERR_ADD_JVMTI_CAPS
  | JNIHOOK_ERR_SETUP_CLASS_FILE_LOAD_HOOK
  | JNIHOOK_ERR_JNI_OPERATION
  | JNIHOOK_ERR_JVMTI_OPERATION
  | JNIHOOK_ERR_CLASSFILE_CACHE
  | JNIHOOK_ERR_PATCH_CLASSFILE

text \<open>
  An entry point either returns, or faults before it returns: it dereferences a null
  handle, or a constant-pool lookup fails while it runs. With \<open>Crashes\<close> the model
  gives the state before the step that faulted. The pointer to the handle bundle itself
  is taken to be valid.
\<close>

datatype 'r outcome = Crashes | Returns 'r

text \<open>The handle bundle \<open>jnihook_t\<close>: three pointers.\<close>

record jnihook_t =
  jvm :: addr
  env :: addr
  jvmti :: addr

record method_info_t =
  name :: string
  signature :: string

record hook_info_t =
  method_info :: method_info_t
  native_hook_method :: addr

subsection \<open>The class document\<close>

text \<open>
  Modelled from the spec: classfile.hpp (the \<open>ClassFile\<close> type, its accessors, \<open>load\<close>
  and \<open>bytes\<close>, the item structures and the tag constants) is not among the sources.
  jnihook.cpp reads a document through \<open>get_constant_pool\<close>, \<open>get_constant_pool_item\<close>
  and \<open>get_methods\<close>, and reads the \<open>name_index\<close> and \<open>descriptor_index\<close> of a
  method. The document below has these parts, and the access flags and attribute list of
  a method record as the data model describes them. The pool is indexed from 1: slot 0
  of the list is the unused slot.
\<close>

text \<open>
  Modelled from the spec: a pool item. jnihook.cpp holds an item as raw bytes and reads
  it in three ways: the tag byte \<open>item.bytes[0]\<close>; the \<open>name_index\<close> of the bytes cast
  to \<open>CONSTANT_Class_info\<close> (read after the tag test); and \<open>length\<close> bytes of text of
  the bytes cast to \<open>CONSTANT_Utf8_info\<close>. The last read is made with no tag test, on
  whatever item an index names. The layout of the two structures is declared in
  classfile.hpp, so an item is given here by what each of the three reads returns on it.
\<close>

record cp_info =
  tag :: "8 word"
  Class_name_index :: nat
  Utf8_bytes :: string

text \<open>Modelled from the spec: the tag values, those of the class file format.\<close>

definition CONSTANT_Utf8 :: "8 word" where
  "CONSTANT_Utf8 = 1"

definition CONSTANT_Class :: "8 word" where
  "CONSTANT_Class = 7"

datatype attribute_info =
    Code_attribute nat nat "8 word list"
  | Other_attribute nat "8 word list"

record method_rec =
  access_flags :: "16 word"
  name_index :: nat
  descriptor_index :: nat
  attributes :: "attribute_info list"

record ClassFile =
  constant_pool :: "cp_info list"
  methods :: "method_rec list"

text \<open>
  Modelled from the spec: the lookup by 1-based index fails outside
  \<open>[1, pool.size())\<close>.
\<close>

definition get_constant_pool_item :: "ClassFile \<Rightarrow> nat \<Rightarrow> cp_info option" where
  "get_constant_pool_item cf i =
     (if 1 \<le> i \<and> i < length (constant_pool cf) then Some (constant_pool cf ! i) else None)"

text \<open>
  Modelled from the spec: the source looks the item at an index up with
  \<open>get_constant_pool_item\<close>, casts its bytes to \<open>CONSTANT_Utf8_info\<close> and copies
  \<open>length\<close> bytes of it into a string, whatever the tag of the item is. Only the lookup
  can fail.
\<close>

definition utf8_string :: "ClassFile \<Rightarrow> nat \<Rightarrow> string option" where
  "utf8_string cf i =
     (case get_constant_pool_item cf i of
        None \<Rightarrow> None
      | Some item \<Rightarrow> Some (Utf8_bytes item))"

text \<open>
  The codec, \<open>ClassFile::load\<close> and \<open>ClassFile::bytes\<close>, is a parameter; \<open>'b\<close> is the
  type of raw class data.
\<close>

record 'b codec =
  load :: "'b \<Rightarrow> ClassFile option"
  bytes :: "ClassFile \<Rightarrow> 'b"

subsection \<open>The virtual machine\<close>

datatype capability =
    can_redefine_classes
  | can_redefine_any_class
  | can_retransform_classes
  | can_retransform_any_class
  | can_other nat

text \<open>One delivery of the class-load notification.\<close>

record 'b load_event =
  class_being_redefined :: jclass
  class_data :: 'b

text \<open>
  What the machine answers to each call the library makes. \<open>None\<close> and \<open>False\<close> are an
  error code; a handle \<open>0\<close> is \<open>NULL\<close>. \<open>RetransformClasses\<close> and \<open>RedefineClasses\<close>
  are synchronous: the notifications they list are delivered before they return.
\<close>

record 'b host =
  GetJavaVM :: "addr option"
  GetEnv :: "addr option"
  GetPotentialCapabilities :: "capability set option"
  AddCapabilities :: "capability set \<Rightarrow> bool"
  SetEventCallbacks :: "bool \<Rightarrow> bool"
  SetEventNotificationMode :: "bool \<Rightarrow> bool"
  GetMethodDeclaringClass :: "jmethodID \<Rightarrow> jclass option"
  GetMethodName :: "jmethodID \<Rightarrow> (string \<times> string) option"
  FindClass :: "string \<Rightarrow> jclass"
  GetMethodID :: "jclass \<Rightarrow> string \<Rightarrow> string \<Rightarrow> jmethodID"
  CallObjectMethod :: "jobject \<Rightarrow> jmethodID \<Rightarrow> jobject"
  GetStringUTFChars :: "jobject \<Rightarrow> string option"
  RetransformClasses :: "jclass \<Rightarrow> 'b load_event list"
  RedefineClasses :: "jclass \<Rightarrow> 'b \<Rightarrow> bool \<times> 'b load_event list"

text \<open>
  The state: the two global tables of jnihook.cpp, the standard output, and the part of
  the machine that the library acts on. Modelled from the spec (the host interface): an
  accepted \<open>AddCapabilities\<close>, \<open>SetEventCallbacks\<close>, \<open>SetEventNotificationMode\<close> or
  \<open>RedefineClasses\<close> takes effect in the machine, a refused one changes nothing;
  \<open>vm_natives\<close> is the table of native-method bindings.
\<close>

record 'b state =
  g_hooks :: "string \<rightharpoonup> hook_info_t list"
  g_class_file_cache :: "string \<rightharpoonup> ClassFile"
  cout :: "string list"
  vm_capabilities :: "capability set"
  vm_ClassFileLoadHook :: bool
  vm_notification_enabled :: bool
  vm_class_bytes :: "jclass \<rightharpoonup> 'b"
  vm_natives :: "jclass \<times> string \<times> string \<rightharpoonup> addr"

subsection \<open>The name helpers\<close>

text \<open>
  \<open>get_class_name\<close> asks the machine for \<open>java.lang.Class\<close>, for its method
  \<open>getName\<close>, for the name object of the class and for the characters of that object;
  a null answer at any of the four gives the empty string. The loop at its end replaces
  dots with slashes. (\<open>get_class_signature\<close> is called by no function of the file and is
  left out.)
\<close>

primrec replace_dots :: "string \<Rightarrow> string" where
  "replace_dots [] = []"
| "replace_dots (c # cs) = (if c = CHR ''.'' then CHR ''/'' else c) # replace_dots cs"

definition get_class_name :: "'b host \<Rightarrow> jclass \<Rightarrow> string" where
  "get_class_name H clazz =
     (let klass = FindClass H ''java/lang/Class'' in
      if klass = 0 then []
      else
        let getName_method = GetMethodID H klass ''getName'' ''()Ljava/lang/String;'' in
        if getName_method = 0 then []
        else
          let name_obj = CallObjectMethod H clazz getName_method in
          if name_obj = 0 then []
          else
            (case GetStringUTFChars H name_obj of
               None \<Rightarrow> []
             | Some c_name \<Rightarrow> replace_dots c_name))"

definition get_method_info :: "'b host \<Rightarrow> jmethodID \<Rightarrow> method_info_t option" where
  "get_method_info H m =
     (case GetMethodName H m of
        None \<Rightarrow> None
      | Some (name_str, signature_str) \<Rightarrow>
          Some \<lparr>name = name_str, signature = signature_str\<rparr>)"

text \<open>The two spellings of a class name, from its segments.\<close>

fun join_with :: "char \<Rightarrow> string list \<Rightarrow> string" where
  "join_with sep [] = []"
| "join_with sep [x] = x"
| "join_with sep (x # y # ys) = x @ sep # join_with sep (y # ys)"

subsection \<open>The class-load callback\<close>

text \<open>
  Of its parameters the callback reads the class handle and the class data (and the JNI
  environment, the machine's own); it never sets \<open>new_class_data\<close>, so the class the
  machine is loading stays as it is.
\<close>

definition JNIHook_ClassFileLoadHook ::
  "'b codec \<Rightarrow> 'b host \<Rightarrow> jclass \<Rightarrow> 'b \<Rightarrow> 'b state \<Rightarrow> 'b state" where
  "JNIHook_ClassFileLoadHook C H class_being_redefined' class_data' s =
     (let class_name = get_class_name H class_being_redefined' in
      if class_name = [] \<or> g_hooks s class_name = None
           \<or> g_class_file_cache s class_name \<noteq> None
      then s
      else
        (case load C class_data' of
           None \<Rightarrow> s
         | Some cf \<Rightarrow>
             s\<lparr>g_class_file_cache := (g_class_file_cache s)(class_name \<mapsto> cf)\<rparr>))"

text \<open>The machine delivers a list of notifications, one after the other.\<close>

definition deliver :: "'b codec \<Rightarrow> 'b host \<Rightarrow> 'b load_event list \<Rightarrow> 'b state \<Rightarrow> 'b state" where
  "deliver C H evs s =
     fold (\<lambda>ev. JNIHook_ClassFileLoadHook C H (class_being_redefined ev) (class_data ev)) evs s"

subsection \<open>Initialization and shutdown\<close>

text \<open>
  \<open>JNIHook_Init\<close> sets four capability bits and then lets \<open>GetPotentialCapabilities\<close>
  overwrite the structure, so what it adds is what the machine reports as potential.
  \<open>SetEventCallbacks\<close> is called with a table whose only entry is the class-load
  callback (\<open>True\<close>) or with an empty table (\<open>False\<close>); \<open>SetEventNotificationMode\<close>
  with \<open>JVMTI_ENABLE\<close> (\<open>True\<close>) or \<open>JVMTI_DISABLE\<close> (\<open>False\<close>) for the class-load
  event. \<open>JNIHook_Shutdown\<close> ignores what the machine answers.
\<close>

definition JNIHook_Init ::
  "'b host \<Rightarrow> addr \<Rightarrow> jnihook_t \<Rightarrow> 'b state \<Rightarrow> jnihook_result_t outcome \<times> jnihook_t \<times> 'b state" where
  "JNIHook_Init H env' jnihook s =
     (if env' = 0 then (Crashes, jnihook, s)
      else
        (case GetJavaVM H of
           None \<Rightarrow> (Returns JNIHOOK_ERR_GET_JVM, jnihook, s)
         | Some jvm' \<Rightarrow>
        if jvm' = 0 then (Crashes, jnihook, s)
        else
        (case GetEnv H of
           None \<Rightarrow> (Returns JNIHOOK_ERR_GET_JVMTI, jnihook, s)
         | Some jvmti' \<Rightarrow>
        if jvmti' = 0 then (Crashes, jnihook, s)
        else
        (case GetPotentialCapabilities H of
           None \<Rightarrow> (Returns JNIHOOK_ERR_ADD_JVMTI_CAPS, jnihook, s)
         | Some capabilities \<Rightarrow>
        if AddCapabilities H capabilities = False
        then (Returns JNIHOOK_ERR_ADD_JVMTI_CAPS, jnihook, s)
        else
          let s1 = s\<lparr>vm_capabilities := vm_capabilities s \<union> capabilities\<rparr> in
          if SetEventCallbacks H True = False
          then (Returns JNIHOOK_ERR_SETUP_CLASS_FILE_LOAD_HOOK, jnihook, s1)
          else
            let s2 = s1\<lparr>vm_ClassFileLoadHook := True\<rparr> in
            if SetEventNotificationMode H True = False
            then (Returns JNIHOOK_ERR_SETUP_CLASS_FILE_LOAD_HOOK, jnihook, s2)
            else
              (Returns JNIHOOK_OK,
               \<lparr>jvm = jvm', env = env', jvmti = jvmti'\<rparr>,
               s2\<lparr>vm_notification_enabled := True\<rparr>)))))"

definition JNIHook_Shutdown ::
  "'b host \<Rightarrow> jnihook_t \<Rightarrow> 'b state \<Rightarrow> unit outcome \<times> jnihook_t \<times> 'b state" where
  "JNIHook_Shutdown H jnihook s =
     (if jvmti jnihook = 0 then (Crashes, jnihook, s)
      else
        let s1 = (if SetEventNotificationMode H False
                  then s\<lparr>vm_notification_enabled := False\<rparr> else s);
            s2 = (if SetEventCallbacks H False
                  then s1\<lparr>vm_ClassFileLoadHook := False\<rparr> else s1)
        in (Returns (), \<lparr>jvm = 0, env = 0, jvmti = 0\<rparr>, s2))"

subsection \<open>Attach\<close>

text \<open>
  \<open>g_hooks[clazz_name].push_back(hook_info)\<close>: indexing the table creates an empty
  vector for a name it does not hold.
\<close>

definition push_back ::
  "(string \<rightharpoonup> hook_info_t list) \<Rightarrow> string \<Rightarrow> hook_info_t \<Rightarrow> (string \<rightharpoonup> hook_info_t list)" where
  "push_back hooks clazz_name hook_info =
     hooks(clazz_name \<mapsto> (case hooks clazz_name of None \<Rightarrow> [] | Some v \<Rightarrow> v) @ [hook_info])"

text \<open>
  The search for the class index: the loop over the pool from index 1. An item whose tag
  is not \<open>CONSTANT_Class\<close> is skipped; the name of any other is read as Utf8 text at its
  \<open>name_index\<close>. \<open>Some 0\<close> is "not found"; \<open>None\<close> is a failed lookup of that index.
\<close>

fun scan_classes :: "ClassFile \<Rightarrow> string \<Rightarrow> nat \<Rightarrow> cp_info list \<Rightarrow> nat option" where
  "scan_classes cf clazz_name i [] = Some 0"
| "scan_classes cf clazz_name i (item # items) =
     (if tag item \<noteq> CONSTANT_Class then scan_classes cf clazz_name (Suc i) items
      else
        (case utf8_string cf (Class_name_index item) of
           None \<Rightarrow> None
         | Some nm \<Rightarrow>
             if nm = clazz_name then Some i
             else scan_classes cf clazz_name (Suc i) items))"

definition find_class_index :: "ClassFile \<Rightarrow> string \<Rightarrow> nat option" where
  "find_class_index cf clazz_name = scan_classes cf clazz_name 1 (drop 1 (constant_pool cf))"

text \<open>
  The loop under "Patch class file": it reads the name and the descriptor of every
  method as Utf8 text and prints them. \<open>None\<close> is a failed lookup.
\<close>

fun dump_methods :: "ClassFile \<Rightarrow> method_rec list \<Rightarrow> string list option" where
  "dump_methods cf [] = Some []"
| "dump_methods cf (m # ms) =
     (case utf8_string cf (name_index m) of
        None \<Rightarrow> None
      | Some nm \<Rightarrow>
          (case utf8_string cf (descriptor_index m) of
             None \<Rightarrow> None
           | Some descriptor \<Rightarrow>
               (case dump_methods cf ms of
                  None \<Rightarrow> None
                | Some out \<Rightarrow>
                    Some ((''NAME: '' @ nm) # (''DESCRIPTOR: '' @ descriptor) # out))))"

text \<open>
  \<open>JNIHook_Attach\<close> ignores what \<open>RetransformClasses\<close> and \<open>RedefineClasses\<close> return.
  Between the search for the class index and the redefinition it changes nothing in its
  copy \<open>cf\<close> of the cached document.
\<close>

definition JNIHook_Attach ::
  "'b codec \<Rightarrow> 'b host \<Rightarrow> jnihook_t \<Rightarrow> jmethodID \<Rightarrow> addr \<Rightarrow> 'b state
     \<Rightarrow> jnihook_result_t outcome \<times> 'b state" where
  "JNIHook_Attach C H jnihook method' native_hook_method' s =
     (if jvmti jnihook = 0 then (Crashes, s)
      else
        (case GetMethodDeclaringClass H method' of
           None \<Rightarrow> (Returns JNIHOOK_ERR_JVMTI_OPERATION, s)
         | Some clazz \<Rightarrow>
        if env jnihook = 0 then (Crashes, s)
        else
          let clazz_name = get_class_name H clazz in
          if length clazz_name = 0 then (Returns JNIHOOK_ERR_JNI_OPERATION, s)
          else
        (case get_method_info H method' of
           None \<Rightarrow> (Returns JNIHOOK_ERR_JVMTI_OPERATION, s)
         | Some method_info' \<Rightarrow>
          let hook_info = \<lparr>method_info = method_info',
                           native_hook_method = native_hook_method'\<rparr>;
              s1 = s\<lparr>g_hooks := push_back (g_hooks s) clazz_name hook_info\<rparr>;
              s2 = deliver C H (RetransformClasses H clazz) s1
          in
        (case g_class_file_cache s2 clazz_name of
           None \<Rightarrow> (Returns JNIHOOK_ERR_CLASSFILE_CACHE, s2)
         | Some cf \<Rightarrow>
        (case find_class_index cf clazz_name of
           None \<Rightarrow> (Crashes, s2)
         | Some class_index \<Rightarrow>
        if class_index = 0 then (Returns JNIHOOK_ERR_PATCH_CLASSFILE, s2)
        else
        (case dump_methods cf (methods cf) of
           None \<Rightarrow> (Crashes, s2)
         | Some out \<Rightarrow>
          let s3 = s2\<lparr>cout := cout s2 @ out\<rparr>;
              cf_bytes = bytes C cf;
              redefined = RedefineClasses H clazz cf_bytes;
              s4 = deliver C H (snd redefined) s3;
              s5 = (if fst redefined
                    then s4\<lparr>vm_class_bytes := (vm_class_bytes s4)(clazz \<mapsto> cf_bytes)\<rparr>
                    else s4)
          in (Returns JNIHOOK_OK, s5)))))))"

subsection \<open>Vocabulary of the properties\<close>

definition ACC_NATIVE :: "16 word" where
  "ACC_NATIVE = 0x0100"

definition is_native :: "method_rec \<Rightarrow> bool" where
  "is_native m = (access_flags m AND ACC_NATIVE \<noteq> 0)"

fun is_Code :: "attribute_info \<Rightarrow> bool" where
  "is_Code (Code_attribute max_stack max_locals code) = True"
| "is_Code (Other_attribute attribute_name_index info) = False"

definition has_Code :: "method_rec \<Rightarrow> bool" where
  "has_Code m = list_ex is_Code (attributes m)"

text \<open>The first method record whose resolved name and descriptor are the given ones.\<close>

definition find_method :: "ClassFile \<Rightarrow> string \<Rightarrow> string \<Rightarrow> method_rec option" where
  "find_method cf nm descriptor =
     find (\<lambda>m. utf8_string cf (name_index m) = Some nm
              \<and> utf8_string cf (descriptor_index m) = Some descriptor) (methods cf)"

text \<open>
  The steps of \<open>JNIHook_Init\<close> in the order of the source, the first of them that the
  machine refuses, and the result code the source returns at each.
\<close>

datatype init_step =
    Step_GetJavaVM
  | Step_GetEnv
  | Step_GetPotentialCapabilities
  | Step_AddCapabilities
  | Step_SetEventCallbacks
  | Step_SetEventNotificationMode

definition failing_step :: "'b host \<Rightarrow> init_step option" where
  "failing_step H =
     (if GetJavaVM H = None then Some Step_GetJavaVM
      else if GetEnv H = None then Some Step_GetEnv
      else
        (case GetPotentialCapabilities H of
           None \<Rightarrow> Some Step_GetPotentialCapabilities
         | Some capabilities \<Rightarrow>
             if AddCapabilities H capabilities = False then Some Step_AddCapabilities
             else if SetEventCallbacks H True = False then Some Step_SetEventCallbacks
             else if SetEventNotificationMode H True = False
             then Some Step_SetEventNotificationMode
             else None))"

fun step_error :: "init_step \<Rightarrow> jnihook_result_t" where
  "step_error Step_GetJavaVM = JNIHOOK_ERR_GET_JVM"
| "step_error Step_GetEnv = JNIHOOK_ERR_GET_JVMTI"
| "step_error Step_GetPotentialCapabilities = JNIHOOK_ERR_ADD_JVMTI_CAPS"
| "step_error Step_AddCapabilities = JNIHOOK_ERR_ADD_JVMTI_CAPS"
| "step_error Step_SetEventCallbacks = JNIHOOK_ERR_SETUP_CLASS_FILE_LOAD_HOOK"
| "step_error Step_SetEventNotificationMode = JNIHOOK_ERR_SETUP_CLASS_FILE_LOAD_HOOK"

text \<open>Every registered class name has at least one hook record.\<close>

definition hooks_nonempty :: "(string \<rightharpoonup> hook_info_t list) \<Rightarrow> bool" where
  "hooks_nonempty hooks = ([] \<notin> ran hooks)"

text \<open>
  The states a process can be in: both tables are empty when it starts, and the entry
  points and the callback are the only code that changes them.
\<close>

inductive reachable :: "'b codec \<Rightarrow> 'b state \<Rightarrow> bool" for C :: "'b codec" where
  start: "g_hooks s = Map.empty \<Longrightarrow> g_class_file_cache s = Map.empty \<Longrightarrow> reachable C s"
| init: "reachable C s \<Longrightarrow> reachable C (snd (snd (JNIHook_Init H e j s)))"
| attach: "reachable C s \<Longrightarrow> reachable C (snd (JNIHook_Attach C H j m t s))"
| shutdown: "reachable C s \<Longrightarrow> reachable C (snd (snd (JNIHook_Shutdown H j s)))"
| load: "reachable C s \<Longrightarrow> reachable C (JNIHook_ClassFileLoadHook C H c d s)"

subsection \<open>A small machine for the examples\<close>

text \<open>
  In the examples raw class data is the document itself: \<open>load\<close> accepts every
  document and \<open>bytes\<close> returns it.
\<close>

definition plain_codec :: "ClassFile codec" where
  "plain_codec = \<lparr>load = Some, bytes = (\<lambda>cf. cf)\<rparr>"

text \<open>
  The items of the examples. On a Utf8 item the text is its text (and the two bytes after
  the tag, read as a \<open>name_index\<close>, are its length); on every other item a Utf8 read
  finds stray bytes, here none.
\<close>

definition CONSTANT_Utf8_info :: "string \<Rightarrow> cp_info" where
  "CONSTANT_Utf8_info s = \<lparr>tag = CONSTANT_Utf8, Class_name_index = length s, Utf8_bytes = s\<rparr>"

definition CONSTANT_Class_info :: "nat \<Rightarrow> cp_info" where
  "CONSTANT_Class_info name_index' =
     \<lparr>tag = CONSTANT_Class, Class_name_index = name_index', Utf8_bytes = []\<rparr>"

definition CONSTANT_Other_info :: "8 word \<Rightarrow> cp_info" where
  "CONSTANT_Other_info tag' = \<lparr>tag = tag', Class_name_index = 0, Utf8_bytes = []\<rparr>"

text \<open>
  Class \<open>demo.Foo\<close> with two public methods \<open>run()V\<close> and \<open>stop()V\<close>, each with a
  Code attribute (a single \<open>return\<close>).
\<close>

definition run_rec :: method_rec where
  "run_rec = \<lparr>access_flags = 0x0001, name_index = 4, descriptor_index = 5,
              attributes = [Code_attribute 1 1 [0xB1]]\<rparr>"

definition stop_rec :: method_rec where
  "stop_rec = \<lparr>access_flags = 0x0001, name_index = 6, descriptor_index = 5,
               attributes = [Code_attribute 1 1 [0xB1]]\<rparr>"

definition Foo_doc :: ClassFile where
  "Foo_doc =
     \<lparr>constant_pool =
        [CONSTANT_Other_info 0,
         CONSTANT_Utf8_info ''Code'',
         CONSTANT_Utf8_info ''demo/Foo'',
         CONSTANT_Class_info 2,
         CONSTANT_Utf8_info ''run'',
         CONSTANT_Utf8_info ''()V'',
         CONSTANT_Utf8_info ''stop''],
      methods = [run_rec, stop_rec]\<rparr>"

text \<open>
  A document whose only Class item names itself, an item that is not a Utf8 item, and a
  document whose pool has no Class item.
\<close>

definition Odd_doc :: ClassFile where
  "Odd_doc =
     \<lparr>constant_pool =
        [CONSTANT_Other_info 0,
         CONSTANT_Utf8_info ''run'',
         CONSTANT_Class_info 2,
         CONSTANT_Utf8_info ''()V''],
      methods =
        [\<lparr>access_flags = 0x0001, name_index = 1, descriptor_index = 3,
          attributes = [Code_attribute 1 1 [0xB1]]\<rparr>]\<rparr>"

definition Anon_doc :: ClassFile where
  "Anon_doc =
     \<lparr>constant_pool =
        [CONSTANT_Other_info 0,
         CONSTANT_Utf8_info ''run'',
         CONSTANT_Utf8_info ''()V''],
      methods =
        [\<lparr>access_flags = 0x0001, name_index = 1, descriptor_index = 2,
          attributes = [Code_attribute 1 1 [0xB1]]\<rparr>]\<rparr>"

text \<open>
  A machine that accepts every request. Class handle 11 is \<open>demo.Foo\<close>; method
  handles 7, 8 and 9 are its \<open>run()V\<close>, \<open>stop()V\<close> and a method \<open>missing()V\<close> that
  the class data it delivers does not have.
\<close>

definition vm0 :: "ClassFile host" where
  "vm0 =
     \<lparr>GetJavaVM = Some 100,
      GetEnv = Some 200,
      GetPotentialCapabilities =
        Some {can_redefine_classes, can_redefine_any_class,
              can_retransform_classes, can_retransform_any_class},
      AddCapabilities = (\<lambda>caps. True),
      SetEventCallbacks = (\<lambda>hook. True),
      SetEventNotificationMode = (\<lambda>enable. True),
      GetMethodDeclaringClass = (\<lambda>m. if m = 7 \<or> m = 8 \<or> m = 9 then Some 11 else None),
      GetMethodName =
        (\<lambda>m. if m = 7 then Some (''run'', ''()V'')
             else if m = 8 then Some (''stop'', ''()V'')
             else if m = 9 then Some (''missing'', ''()V'')
             else None),
      FindClass = (\<lambda>n. if n = ''java/lang/Class'' then 50 else 0),
      GetMethodID = (\<lambda>c n sg. if c = 50 \<and> n = ''getName'' then 60 else 0),
      CallObjectMethod = (\<lambda>obj m. if obj = 11 \<and> m = 60 then 70 else 0),
      GetStringUTFChars = (\<lambda>obj. if obj = 70 then Some ''demo.Foo'' else None),
      RetransformClasses =
        (\<lambda>c. if c = 11 then [\<lparr>class_being_redefined = 11, class_data = Foo_doc\<rparr>] else []),
      RedefineClasses = (\<lambda>c b. (True, [\<lparr>class_being_redefined = c, class_data = b\<rparr>]))\<rparr>"

definition s0 :: "ClassFile state" where
  "s0 =
     \<lparr>g_hooks = Map.empty, g_class_file_cache = Map.empty, cout = [],
      vm_capabilities = {}, vm_ClassFileLoadHook = False, vm_notification_enabled = False,
      vm_class_bytes = Map.empty, vm_natives = Map.empty\<rparr>"

text \<open>The handle bundle before initialization and after shutdown, and after \<open>JNIHook_Init\<close>.\<close>

definition h_null :: jnihook_t where
  "h_null = \<lparr>jvm = 0, env = 0, jvmti = 0\<rparr>"

definition h0 :: jnihook_t where
  "h0 = \<lparr>jvm = 100, env = 300, jvmti = 200\<rparr>"

text \<open>The state after \<open>JNIHook_Init\<close> on \<open>vm0\<close>.\<close>

definition s_live :: "ClassFile state" where
  "s_live =
     s0\<lparr>vm_capabilities := {can_redefine_classes, can_redefine_any_class,
                            can_retransform_classes, can_retransform_any_class},
        vm_ClassFileLoadHook := True,
        vm_notification_enabled := True\<rparr>"

text \<open>Machines that differ from \<open>vm0\<close> in one answer.\<close>

definition vm_silent :: "ClassFile host" where
  "vm_silent = vm0\<lparr>RetransformClasses := (\<lambda>c. [])\<rparr>"

definition vm_anon :: "ClassFile host" where
  "vm_anon = vm0\<lparr>RetransformClasses :=
                  (\<lambda>c. [\<lparr>class_being_redefined = 11, class_data = Anon_doc\<rparr>])\<rparr>"

definition vm_odd :: "ClassFile host" where
  "vm_odd = vm0\<lparr>RetransformClasses :=
                 (\<lambda>c. [\<lparr>class_being_redefined = 11, class_data = Odd_doc\<rparr>])\<rparr>"

definition vm_refuse :: "ClassFile host" where
  "vm_refuse = vm0\<lparr>RedefineClasses := (\<lambda>c b. (False, []))\<rparr>"

definition vm_no_events :: "ClassFile host" where
  "vm_no_events = vm0\<lparr>SetEventNotificationMode := (\<lambda>enable. False)\<rparr>"

definition vm_no_potential :: "ClassFile host" where
  "vm_no_potential = vm0\<lparr>GetPotentialCapabilities := None\<rparr>"

definition vm_no_caps :: "ClassFile host" where
  "vm_no_caps = vm0\<lparr>AddCapabilities := (\<lambda>caps. False)\<rparr>"

text \<open>The hook records of the examples and the states the example calls end in.\<close>

definition run_hook :: hook_info_t where
  "run_hook = \<lparr>method_info = \<lparr>name = ''run'', signature = ''()V''\<rparr>,
               native_hook_method = 4096\<rparr>"

definition stop_hook :: hook_info_t where
  "stop_hook = \<lparr>method_info = \<lparr>name = ''stop'', signature = ''()V''\<rparr>,
                native_hook_method = 8192\<rparr>"

definition missing_hook :: hook_info_t where
  "missing_hook = \<lparr>method_info = \<lparr>name = ''missing'', signature = ''()V''\<rparr>,
                   native_hook_method = 4096\<rparr>"

definition Foo_out :: "string list" where
  "Foo_out = [''NAME: run'', ''DESCRIPTOR: ()V'', ''NAME: stop'', ''DESCRIPTOR: ()V'']"

definition s_pending :: "ClassFile state" where
  "s_pending = s_live\<lparr>g_hooks := [''demo/Foo'' \<mapsto> [run_hook]]\<rparr>"

definition s_run :: "ClassFile state" where
  "s_run =
     s_live\<lparr>g_hooks := [''demo/Foo'' \<mapsto> [run_hook]],
            g_class_file_cache := [''demo/Foo'' \<mapsto> Foo_doc],
            cout := Foo_out,
            vm_class_bytes := [11 \<mapsto> Foo_doc]\<rparr>"

definition s_both :: "ClassFile state" where
  "s_both =
     s_live\<lparr>g_hooks := [''demo/Foo'' \<mapsto> [run_hook, stop_hook]],
            g_class_file_cache := [''demo/Foo'' \<mapsto> Foo_doc],
            cout := Foo_out @ Foo_out,
            vm_class_bytes := [11 \<mapsto> Foo_doc]\<rparr>"

definition s_refused :: "ClassFile state" where
  "s_refused =
     s_live\<lparr>g_hooks := [''demo/Foo'' \<mapsto> [run_hook]],
            g_class_file_cache := [''demo/Foo'' \<mapsto> Foo_doc],
            cout := Foo_out\<rparr>"

definition s_missing :: "ClassFile state" where
  "s_missing =
     s_live\<lparr>g_hooks := [''demo/Foo'' \<mapsto> [missing_hook]],
            g_class_file_cache := [''demo/Foo'' \<mapsto> Foo_doc],
            cout := Foo_out,
            vm_class_bytes := [11 \<mapsto> Foo_doc]\<rparr>"

definition s_odd :: "ClassFile state" where
  "s_odd =
     s_live\<lparr>g_hooks := [''demo/Foo'' \<mapsto> [run_hook]],
            g_class_file_cache := [''demo/Foo'' \<mapsto> Odd_doc]\<rparr>"

definition s_anon :: "ClassFile state" where
  "s_anon =
     s_live\<lparr>g_hooks := [''demo/Foo'' \<mapsto> [run_hook]],
            g_class_file_cache := [''demo/Foo'' \<mapsto> Anon_doc]\<rparr>"

section \<open>Basic facts\<close>

subsection \<open>The example machine, field by field\<close>

lemma vm0_sel:
  "GetJavaVM vm0 = Some 100"
  "GetEnv vm0 = Some 200"
  "GetPotentialCapabilities vm0 =
     Some {can_redefine_classes, can_redefine_any_class,
           can_retransform_classes, can_retransform_any_class}"
  "AddCapabilities vm0 caps = True"
  "SetEventCallbacks vm0 hook = True"
  "SetEventNotificationMode vm0 enable = True"
  "GetMethodDeclaringClass vm0 m = (if m = 7 \<or> m = 8 \<or> m = 9 then Some 11 else None)"
  "GetMethodName vm0 m =
     (if m = 7 then Some (''run'', ''()V'')
      else if m = 8 then Some (''stop'', ''()V'')
      else if m = 9 then Some (''missing'', ''()V'')
      else None)"
  "FindClass vm0 n = (if n = ''java/lang/Class'' then 50 else 0)"
  "GetMethodID vm0 c n sg = (if c = 50 \<and> n = ''getName'' then 60 else 0)"
  "CallObjectMethod vm0 obj m = (if obj = 11 \<and> m = 60 then 70 else 0)"
  "GetStringUTFChars vm0 obj = (if obj = 70 then Some ''demo.Foo'' else None)"
  "RetransformClasses vm0 c =
     (if c = 11 then [\<lparr>class_being_redefined = 11, class_data = Foo_doc\<rparr>] else [])"
  "RedefineClasses vm0 c b = (True, [\<lparr>class_being_redefined = c, class_data = b\<rparr>])"
  by (simp_all add: vm0_def)

subsection \<open>The callback changes the cache only\<close>

lemma hook_frame:
  "g_hooks (JNIHook_ClassFileLoadHook C H c d s) = g_hooks s"
  "cout (JNIHook_ClassFileLoadHook C H c d s) = cout s"
  "vm_capabilities (JNIHook_ClassFileLoadHook C H c d s) = vm_capabilities s"
  "vm_ClassFileLoadHook (JNIHook_ClassFileLoadHook C H c d s) = vm_ClassFileLoadHook s"
  "vm_notification_enabled (JNIHook_ClassFileLoadHook C H c d s) = vm_notification_enabled s"
  "vm_class_bytes (JNIHook_ClassFileLoadHook C H c d s) = vm_class_bytes s"
  "vm_natives (JNIHook_ClassFileLoadHook C H c d s) = vm_natives s"
  by (simp_all add: JNIHook_ClassFileLoadHook_def Let_def split: option.splits)

lemma hook_inserts:
  assumes "get_class_name H c \<noteq> []"
    and "g_hooks s (get_class_name H c) = Some v"
    and "g_class_file_cache s (get_class_name H c) = None"
    and "load C d = Some cf"
  shows "JNIHook_ClassFileLoadHook C H c d s =
           s\<lparr>g_class_file_cache := (g_class_file_cache s)(get_class_name H c \<mapsto> cf)\<rparr>"
  using assms by (simp add: JNIHook_ClassFileLoadHook_def Let_def)

lemma hook_cache_keep:
  "g_class_file_cache s n = Some doc \<Longrightarrow>
   g_class_file_cache (JNIHook_ClassFileLoadHook C H c d s) n = Some doc"
  by (auto simp add: JNIHook_ClassFileLoadHook_def Let_def split: option.splits)

lemma deliver_Nil: "deliver C H [] s = s"
  by (simp add: deliver_def)

lemma deliver_Cons:
  "deliver C H (ev # evs) s =
   deliver C H evs (JNIHook_ClassFileLoadHook C H (class_being_redefined ev) (class_data ev) s)"
  by (simp add: deliver_def)

lemma deliver_frame:
  "g_hooks (deliver C H evs s) = g_hooks s"
  "cout (deliver C H evs s) = cout s"
  "vm_capabilities (deliver C H evs s) = vm_capabilities s"
  "vm_ClassFileLoadHook (deliver C H evs s) = vm_ClassFileLoadHook s"
  "vm_notification_enabled (deliver C H evs s) = vm_notification_enabled s"
  "vm_class_bytes (deliver C H evs s) = vm_class_bytes s"
  "vm_natives (deliver C H evs s) = vm_natives s"
  by (induction evs arbitrary: s; simp add: deliver_Nil deliver_Cons hook_frame)+

lemma deliver_cache_keep:
  "g_class_file_cache s n = Some doc \<Longrightarrow> g_class_file_cache (deliver C H evs s) n = Some doc"
  by (induction evs arbitrary: s) (simp_all add: deliver_Nil deliver_Cons hook_cache_keep)

subsection \<open>Replacing dots\<close>

lemma replace_dots_append: "replace_dots (xs @ ys) = replace_dots xs @ replace_dots ys"
  by (induction xs) simp_all

lemma replace_dots_id: "CHR ''.'' \<notin> set xs \<Longrightarrow> replace_dots xs = xs"
  by (induction xs) auto

lemma replace_dots_join:
  "replace_dots (join_with sep segs) =
   join_with (if sep = CHR ''.'' then CHR ''/'' else sep) (map replace_dots segs)"
  by (induction sep segs rule: join_with.induct) (simp_all add: replace_dots_append)

lemma map_replace_dots_id:
  "list_all (\<lambda>seg. CHR ''.'' \<notin> set seg) segs \<Longrightarrow> map replace_dots segs = segs"
  by (induction segs) (simp_all add: replace_dots_id)

lemma get_class_name_reflected:
  assumes "FindClass H ''java/lang/Class'' \<noteq> 0"
    and "GetMethodID H (FindClass H ''java/lang/Class'') ''getName'' ''()Ljava/lang/String;'' \<noteq> 0"
    and "CallObjectMethod H clazz
           (GetMethodID H (FindClass H ''java/lang/Class'') ''getName'' ''()Ljava/lang/String;'') \<noteq> 0"
    and "GetStringUTFChars H
           (CallObjectMethod H clazz
             (GetMethodID H (FindClass H ''java/lang/Class'') ''getName'' ''()Ljava/lang/String;''))
         = Some c_name"
  shows "get_class_name H clazz = replace_dots c_name"
  using assms by (simp add: get_class_name_def)

lemma get_class_name_vm0: "get_class_name vm0 11 = ''demo/Foo''"
  by (simp add: get_class_name_def vm0_sel)

subsection \<open>The example machines and documents, evaluated\<close>

lemma get_class_name_cong:
  "FindClass H' = FindClass H \<Longrightarrow> GetMethodID H' = GetMethodID H \<Longrightarrow>
   CallObjectMethod H' = CallObjectMethod H \<Longrightarrow> GetStringUTFChars H' = GetStringUTFChars H \<Longrightarrow>
   get_class_name H' clazz = get_class_name H clazz"
  by (simp add: get_class_name_def Let_def)

lemma get_class_name_variants:
  "get_class_name vm_silent 11 = ''demo/Foo''"
  "get_class_name vm_anon 11 = ''demo/Foo''"
  "get_class_name vm_refuse 11 = ''demo/Foo''"
  "get_class_name vm_odd 11 = ''demo/Foo''"
  using get_class_name_cong [of vm_silent vm0 11] get_class_name_cong [of vm_anon vm0 11]
    get_class_name_cong [of vm_refuse vm0 11] get_class_name_cong [of vm_odd vm0 11]
  by (simp_all add: vm_silent_def vm_anon_def vm_refuse_def vm_odd_def get_class_name_vm0)

lemma get_method_info_vm0:
  "get_method_info vm0 7 = Some \<lparr>name = ''run'', signature = ''()V''\<rparr>"
  "get_method_info vm0 8 = Some \<lparr>name = ''stop'', signature = ''()V''\<rparr>"
  "get_method_info vm0 9 = Some \<lparr>name = ''missing'', signature = ''()V''\<rparr>"
  by (simp_all add: get_method_info_def vm0_sel)

lemma get_method_info_cong:
  "GetMethodName H' = GetMethodName H \<Longrightarrow> get_method_info H' m = get_method_info H m"
  by (simp add: get_method_info_def)

lemma get_method_info_variants:
  "get_method_info vm_silent = get_method_info vm0"
  "get_method_info vm_anon = get_method_info vm0"
  "get_method_info vm_refuse = get_method_info vm0"
  "get_method_info vm_odd = get_method_info vm0"
  by (rule ext, rule get_method_info_cong,
      simp add: vm_silent_def vm_anon_def vm_refuse_def vm_odd_def)+

lemma vm_silent_sel:
  "GetMethodDeclaringClass vm_silent = GetMethodDeclaringClass vm0"
  "GetMethodName vm_silent = GetMethodName vm0"
  "RetransformClasses vm_silent c = []"
  by (simp_all add: vm_silent_def)

lemma vm_anon_sel:
  "GetMethodDeclaringClass vm_anon = GetMethodDeclaringClass vm0"
  "GetMethodName vm_anon = GetMethodName vm0"
  "RetransformClasses vm_anon c = [\<lparr>class_being_redefined = 11, class_data = Anon_doc\<rparr>]"
  by (simp_all add: vm_anon_def)

lemma vm_odd_sel:
  "GetMethodDeclaringClass vm_odd = GetMethodDeclaringClass vm0"
  "GetMethodName vm_odd = GetMethodName vm0"
  "RetransformClasses vm_odd c = [\<lparr>class_being_redefined = 11, class_data = Odd_doc\<rparr>]"
  by (simp_all add: vm_odd_def)

lemma vm_refuse_sel:
  "GetMethodDeclaringClass vm_refuse = GetMethodDeclaringClass vm0"
  "GetMethodName vm_refuse = GetMethodName vm0"
  "RetransformClasses vm_refuse = RetransformClasses vm0"
  "RedefineClasses vm_refuse c b = (False, [])"
  by (simp_all add: vm_refuse_def)

lemma Foo_doc_sel:
  "constant_pool Foo_doc =
     [CONSTANT_Other_info 0, CONSTANT_Utf8_info ''Code'', CONSTANT_Utf8_info ''demo/Foo'',
      CONSTANT_Class_info 2, CONSTANT_Utf8_info ''run'', CONSTANT_Utf8_info ''()V'',
      CONSTANT_Utf8_info ''stop'']"
  "methods Foo_doc = [run_rec, stop_rec]"
  by (simp_all add: Foo_doc_def)

lemma Foo_doc_utf8:
  "utf8_string Foo_doc 2 = Some ''demo/Foo''"
  "utf8_string Foo_doc 4 = Some ''run''"
  "utf8_string Foo_doc 5 = Some ''()V''"
  "utf8_string Foo_doc 6 = Some ''stop''"
  by (simp_all add: utf8_string_def get_constant_pool_item_def Foo_doc_sel CONSTANT_Utf8_info_def)

lemma item_tags:
  "tag (CONSTANT_Utf8_info s) \<noteq> CONSTANT_Class"
  "tag (CONSTANT_Class_info n) = CONSTANT_Class"
  "Class_name_index (CONSTANT_Class_info n) = n"
  "Utf8_bytes (CONSTANT_Utf8_info s) = s"
  "Utf8_bytes (CONSTANT_Class_info n) = []"
  by (simp_all add: CONSTANT_Utf8_info_def CONSTANT_Class_info_def CONSTANT_Utf8_def
        CONSTANT_Class_def)

lemma Foo_doc_class_index: "find_class_index Foo_doc ''demo/Foo'' = Some 3"
  by (simp add: find_class_index_def Foo_doc_sel Foo_doc_utf8 item_tags)

lemma Foo_rec_sel:
  "name_index run_rec = 4" "descriptor_index run_rec = 5"
  "name_index stop_rec = 6" "descriptor_index stop_rec = 5"
  by (simp_all add: run_rec_def stop_rec_def)

lemma Foo_doc_dump: "dump_methods Foo_doc (methods Foo_doc) = Some Foo_out"
  by (simp add: Foo_doc_sel Foo_rec_sel Foo_doc_utf8 Foo_out_def)

lemma Foo_doc_methods:
  "find_method Foo_doc ''run'' ''()V'' = Some run_rec"
  "find_method Foo_doc ''stop'' ''()V'' = Some stop_rec"
  "find_method Foo_doc ''missing'' ''()V'' = None"
  by (simp_all add: find_method_def Foo_doc_sel Foo_rec_sel Foo_doc_utf8)

lemma Foo_methods_unpatched:
  "\<not> is_native run_rec" "has_Code run_rec" "\<not> is_native stop_rec" "has_Code stop_rec"
  by (simp_all add: is_native_def has_Code_def ACC_NATIVE_def run_rec_def stop_rec_def)

lemma Anon_doc_class_index: "find_class_index Anon_doc ''demo/Foo'' = Some 0"
  by (simp add: find_class_index_def Anon_doc_def item_tags)

text \<open>
  The Class item of \<open>Odd_doc\<close> names an item that is not a Utf8 item: the search reads
  that item's bytes as text, finds no match and goes on.
\<close>

lemma Odd_doc_sel:
  "constant_pool Odd_doc =
     [CONSTANT_Other_info 0, CONSTANT_Utf8_info ''run'', CONSTANT_Class_info 2,
      CONSTANT_Utf8_info ''()V'']"
  by (simp add: Odd_doc_def)

lemma Odd_doc_utf8: "utf8_string Odd_doc 2 = Some []"
  by (simp add: utf8_string_def get_constant_pool_item_def Odd_doc_sel item_tags)

lemma Odd_doc_class_index: "find_class_index Odd_doc ''demo/Foo'' = Some 0"
  by (simp add: find_class_index_def Odd_doc_sel Odd_doc_utf8 item_tags)

lemma plain_codec_sel: "load plain_codec = Some" "bytes plain_codec cf = cf"
  by (simp_all add: plain_codec_def)

lemma hook_vm0_Foo:
  "g_hooks s ''demo/Foo'' \<noteq> None \<Longrightarrow>
   JNIHook_ClassFileLoadHook plain_codec vm0 11 d s =
     (if g_class_file_cache s ''demo/Foo'' = None
      then s\<lparr>g_class_file_cache := (g_class_file_cache s)(''demo/Foo'' \<mapsto> d)\<rparr> else s)"
  by (auto simp add: JNIHook_ClassFileLoadHook_def Let_def get_class_name_vm0 plain_codec_def)

lemma hook_cong:
  "get_class_name H' c = get_class_name H c \<Longrightarrow>
   JNIHook_ClassFileLoadHook C H' c d = JNIHook_ClassFileLoadHook C H c d"
  by (rule ext) (simp add: JNIHook_ClassFileLoadHook_def)

lemma hook_variants:
  "JNIHook_ClassFileLoadHook C vm_anon 11 d = JNIHook_ClassFileLoadHook C vm0 11 d"
  "JNIHook_ClassFileLoadHook C vm_refuse 11 d = JNIHook_ClassFileLoadHook C vm0 11 d"
  "JNIHook_ClassFileLoadHook C vm_odd 11 d = JNIHook_ClassFileLoadHook C vm0 11 d"
  by (rule hook_cong, simp add: get_class_name_variants get_class_name_vm0)+

text \<open>The example calls.\<close>

lemma Init_vm0: "JNIHook_Init vm0 300 h_null s0 = (Returns JNIHOOK_OK, h0, s_live)"
  by (simp add: JNIHook_Init_def Let_def vm0_sel h0_def s_live_def s0_def)

lemma Attach_run: "JNIHook_Attach plain_codec vm0 h0 7 4096 s_live = (Returns JNIHOOK_OK, s_run)"
  by (simp add: JNIHook_Attach_def Let_def h0_def vm0_sel get_class_name_vm0 get_method_info_vm0
        deliver_Nil deliver_Cons hook_vm0_Foo push_back_def Foo_doc_class_index Foo_doc_dump
        plain_codec_sel s_live_def s0_def s_run_def run_hook_def)

lemma Attach_stop: "JNIHook_Attach plain_codec vm0 h0 8 8192 s_run = (Returns JNIHOOK_OK, s_both)"
  by (simp add: JNIHook_Attach_def Let_def h0_def vm0_sel get_class_name_vm0 get_method_info_vm0
        deliver_Nil deliver_Cons hook_vm0_Foo push_back_def Foo_doc_class_index Foo_doc_dump
        plain_codec_sel s_live_def s0_def s_run_def s_both_def run_hook_def stop_hook_def)

lemma Attach_missing:
  "JNIHook_Attach plain_codec vm0 h0 9 4096 s_live = (Returns JNIHOOK_OK, s_missing)"
  by (simp add: JNIHook_Attach_def Let_def h0_def vm0_sel get_class_name_vm0 get_method_info_vm0
        deliver_Nil deliver_Cons hook_vm0_Foo push_back_def Foo_doc_class_index Foo_doc_dump
        plain_codec_sel s_live_def s0_def s_missing_def missing_hook_def)

lemma Attach_silent:
  "JNIHook_Attach plain_codec vm_silent h0 7 4096 s_live
     = (Returns JNIHOOK_ERR_CLASSFILE_CACHE, s_pending)"
  by (simp add: JNIHook_Attach_def Let_def h0_def vm_silent_sel vm0_sel get_class_name_variants
        get_method_info_variants get_method_info_vm0 deliver_Nil push_back_def
        s_live_def s0_def s_pending_def run_hook_def)

lemma Attach_anon:
  "JNIHook_Attach plain_codec vm_anon h0 7 4096 s_live
     = (Returns JNIHOOK_ERR_PATCH_CLASSFILE, s_anon)"
  by (simp add: JNIHook_Attach_def Let_def h0_def vm_anon_sel vm0_sel get_class_name_variants
        get_method_info_variants get_method_info_vm0 deliver_Nil deliver_Cons
        hook_variants hook_vm0_Foo push_back_def
        Anon_doc_class_index s_live_def s0_def s_anon_def run_hook_def)

lemma Attach_odd:
  "JNIHook_Attach plain_codec vm_odd h0 7 4096 s_live
     = (Returns JNIHOOK_ERR_PATCH_CLASSFILE, s_odd)"
  by (simp add: JNIHook_Attach_def Let_def h0_def vm_odd_sel vm0_sel get_class_name_variants
        get_method_info_variants get_method_info_vm0 deliver_Nil deliver_Cons
        hook_variants hook_vm0_Foo push_back_def
        Odd_doc_class_index s_live_def s0_def s_odd_def run_hook_def)

lemma Attach_refused:
  "JNIHook_Attach plain_codec vm_refuse h0 7 4096 s_live = (Returns JNIHOOK_OK, s_refused)"
  by (simp add: JNIHook_Attach_def Let_def h0_def vm_refuse_sel vm0_sel get_class_name_variants
        get_method_info_variants get_method_info_vm0 deliver_Nil deliver_Cons
        hook_variants hook_vm0_Foo push_back_def
        Foo_doc_class_index Foo_doc_dump plain_codec_sel s_live_def s0_def s_refused_def run_hook_def)

text \<open>The example states, field by field.\<close>

lemma s_live_sel:
  "g_hooks s_live = Map.empty"
  "g_class_file_cache s_live = Map.empty"
  "vm_class_bytes s_live = Map.empty"
  "vm_natives s_live = Map.empty"
  "vm_ClassFileLoadHook s_live"
  "vm_notification_enabled s_live"
  by (simp_all add: s_live_def s0_def)

lemma s_pending_sel:
  "g_hooks s_pending = [''demo/Foo'' \<mapsto> [run_hook]]"
  "g_class_file_cache s_pending = Map.empty"
  by (simp_all add: s_pending_def s_live_sel)

lemma s_run_sel:
  "g_hooks s_run = [''demo/Foo'' \<mapsto> [run_hook]]"
  "g_class_file_cache s_run = [''demo/Foo'' \<mapsto> Foo_doc]"
  "vm_class_bytes s_run = [11 \<mapsto> Foo_doc]"
  "vm_natives s_run = Map.empty"
  by (simp_all add: s_run_def s_live_sel)

lemma s_both_sel:
  "g_hooks s_both = [''demo/Foo'' \<mapsto> [run_hook, stop_hook]]"
  "g_class_file_cache s_both = [''demo/Foo'' \<mapsto> Foo_doc]"
  "vm_class_bytes s_both = [11 \<mapsto> Foo_doc]"
  by (simp_all add: s_both_def s_live_sel)

lemma s_refused_sel:
  "g_hooks s_refused = [''demo/Foo'' \<mapsto> [run_hook]]"
  "g_class_file_cache s_refused = [''demo/Foo'' \<mapsto> Foo_doc]"
  "vm_class_bytes s_refused = Map.empty"
  by (simp_all add: s_refused_def s_live_sel)

lemma s_missing_sel:
  "g_hooks s_missing = [''demo/Foo'' \<mapsto> [missing_hook]]"
  "g_class_file_cache s_missing = [''demo/Foo'' \<mapsto> Foo_doc]"
  "vm_class_bytes s_missing = [11 \<mapsto> Foo_doc]"
  by (simp_all add: s_missing_def s_live_sel)

lemma s_odd_sel:
  "g_hooks s_odd = [''demo/Foo'' \<mapsto> [run_hook]]"
  "g_class_file_cache s_odd = [''demo/Foo'' \<mapsto> Odd_doc]"
  by (simp_all add: s_odd_def s_live_sel)

lemma s_anon_sel:
  "g_hooks s_anon = [''demo/Foo'' \<mapsto> [run_hook]]"
  "g_class_file_cache s_anon = [''demo/Foo'' \<mapsto> Anon_doc]"
  by (simp_all add: s_anon_def s_live_sel)

subsection \<open>What Attach leaves alone\<close>

lemma Attach_vm_natives: "vm_natives (snd (JNIHook_Attach C H j m t s)) = vm_natives s"
  by (simp add: JNIHook_Attach_def Let_def deliver_frame split: option.splits)

lemma Attach_cache_keep:
  "g_class_file_cache s n = Some doc \<Longrightarrow>
   g_class_file_cache (snd (JNIHook_Attach C H j m t s)) n = Some doc"
  by (simp add: JNIHook_Attach_def Let_def deliver_cache_keep split: option.splits)

lemma Attach_handles_and_events:
  "vm_ClassFileLoadHook (snd (JNIHook_Attach C H j m t s)) = vm_ClassFileLoadHook s"
  "vm_notification_enabled (snd (JNIHook_Attach C H j m t s)) = vm_notification_enabled s"
  "vm_capabilities (snd (JNIHook_Attach C H j m t s)) = vm_capabilities s"
  by (simp_all add: JNIHook_Attach_def Let_def deliver_frame split: option.splits)

text \<open>
  Whatever \<open>JNIHook_Attach\<close> hands to \<open>RedefineClasses\<close> when it returns success is
  the serialization of the cached document as it stands in the cache: no method record of
  it has been changed.
\<close>

lemma Attach_redefines_with_cached_document:
  assumes "JNIHook_Attach C H j m t s = (Returns JNIHOOK_OK, s')"
    and "GetMethodDeclaringClass H m = Some clazz"
  shows "\<exists>cf. g_class_file_cache s' (get_class_name H clazz) = Some cf
           \<and> vm_class_bytes s' clazz =
               (if fst (RedefineClasses H clazz (bytes C cf)) then Some (bytes C cf)
                else vm_class_bytes s clazz)"
  using assms
  by (auto simp add: JNIHook_Attach_def Let_def deliver_frame deliver_cache_keep
        split: option.splits if_splits)

text \<open>The result of Attach does not depend on what \<open>RedefineClasses\<close> answers.\<close>

lemma Attach_result_ignores_RedefineClasses:
  "fst (JNIHook_Attach C (H\<lparr>RedefineClasses := f\<rparr>) j m t s) = fst (JNIHook_Attach C H j m t s)"
proof -
  have cn: "\<And>c. get_class_name (H\<lparr>RedefineClasses := f\<rparr>) c = get_class_name H c"
    by (rule get_class_name_cong) simp_all
  have mi: "get_method_info (H\<lparr>RedefineClasses := f\<rparr>) m = get_method_info H m"
    by (rule get_method_info_cong) simp
  have hk: "\<And>c d. JNIHook_ClassFileLoadHook C (H\<lparr>RedefineClasses := f\<rparr>) c d
                    = JNIHook_ClassFileLoadHook C H c d"
    by (rule hook_cong) (rule cn)
  have dl: "\<And>evs s. deliver C (H\<lparr>RedefineClasses := f\<rparr>) evs s = deliver C H evs s"
    by (simp add: deliver_def hk)
  show ?thesis
    by (simp add: JNIHook_Attach_def Let_def cn mi dl split: option.splits)
qed

text \<open>
  Once Attach has a cached document, its result is decided by the search for the class
  index and by the lookups of the printing loop; the target's name and descriptor play
  no part in it.
\<close>

lemma Attach_patch_step_result:
  assumes "jvmti j \<noteq> 0" and "env j \<noteq> 0"
    and "GetMethodDeclaringClass H m = Some clazz"
    and "get_class_name H clazz \<noteq> []"
    and "get_method_info H m = Some mi"
    and "JNIHook_Attach C H j m t s = (r, s')"
    and "g_class_file_cache s' (get_class_name H clazz) = Some cf"
  shows "r = (case find_class_index cf (get_class_name H clazz) of
                None \<Rightarrow> Crashes
              | Some class_index \<Rightarrow>
                  if class_index = 0 then Returns JNIHOOK_ERR_PATCH_CLASSFILE
                  else (case dump_methods cf (methods cf) of
                          None \<Rightarrow> Crashes
                        | Some out \<Rightarrow> Returns JNIHOOK_OK))"
proof -
  let ?cn = "get_class_name H clazz"
  let ?s2 = "deliver C H (RetransformClasses H clazz)
               (s\<lparr>g_hooks := push_back (g_hooks s) ?cn
                               \<lparr>method_info = mi, native_hook_method = t\<rparr>\<rparr>)"
  show ?thesis
  proof (cases "g_class_file_cache ?s2 ?cn")
    case None
    with assms(1-6) have "s' = ?s2"
      by (auto simp add: JNIHook_Attach_def Let_def)
    with None assms(7) show ?thesis by simp
  next
    case (Some cf2)
    have "g_class_file_cache s' ?cn = Some cf2"
      using assms(1-6) Some
      by (auto simp add: JNIHook_Attach_def Let_def deliver_cache_keep
            split: option.splits if_splits)
    with assms(7) have "cf2 = cf" by simp
    with assms(1-6) Some show ?thesis
      by (auto simp add: JNIHook_Attach_def Let_def split: option.splits if_splits)
  qed
qed

subsection \<open>The registry\<close>

lemma hooks_nonempty_empty: "hooks_nonempty Map.empty"
  by (simp add: hooks_nonempty_def)

lemma hooks_nonempty_push:
  "hooks_nonempty hooks \<Longrightarrow> hooks_nonempty (push_back hooks k h)"
  by (auto simp add: hooks_nonempty_def push_back_def ran_def split: if_splits)

lemma Attach_hooks_nonempty:
  "hooks_nonempty (g_hooks s) \<Longrightarrow> hooks_nonempty (g_hooks (snd (JNIHook_Attach C H j m t s)))"
  by (simp add: JNIHook_Attach_def Let_def deliver_frame hooks_nonempty_push split: option.splits)

lemma Init_tables:
  "g_hooks (snd (snd (JNIHook_Init H e j s))) = g_hooks s"
  "g_class_file_cache (snd (snd (JNIHook_Init H e j s))) = g_class_file_cache s"
  by (simp_all add: JNIHook_Init_def Let_def split: option.splits)

lemma Shutdown_tables:
  "g_hooks (snd (snd (JNIHook_Shutdown H j s))) = g_hooks s"
  "g_class_file_cache (snd (snd (JNIHook_Shutdown H j s))) = g_class_file_cache s"
  by (simp_all add: JNIHook_Shutdown_def Let_def)

lemma reachable_hooks_nonempty: "reachable C s \<Longrightarrow> hooks_nonempty (g_hooks s)"
proof (induction rule: reachable.induct)
  case (start s)
  then show ?case by (simp add: hooks_nonempty_empty)
next
  case (init s H e j)
  then show ?case by (simp add: Init_tables)
next
  case (attach s H j m t)
  from attach.IH show ?case by (rule Attach_hooks_nonempty)
next
  case (shutdown s H j)
  then show ?case by (simp add: Shutdown_tables)
next
  case (load s H c d)
  then show ?case by (simp add: hook_frame)
qed

lemma reachable_examples:
  "reachable plain_codec s0" "reachable plain_codec s_live" "reachable plain_codec s_pending"
proof -
  show r0: "reachable plain_codec s0"
    by (rule reachable.start) (simp_all add: s0_def)
  from reachable.init [OF r0, of vm0 300 h_null]
  show r1: "reachable plain_codec s_live"
    by (simp add: Init_vm0)
  from reachable.attach [OF r1, of vm_silent h0 7 4096]
  show "reachable plain_codec s_pending"
    by (simp add: Attach_silent)
qed

lemma push_back_lookup:
  "push_back hooks k h k = Some ((case hooks k of None \<Rightarrow> [] | Some v \<Rightarrow> v) @ [h])"
  by (simp add: push_back_def)

text \<open>
  Once the class, its name and the method's name and descriptor are resolved, the call
  has appended its record, whatever it returns afterwards.
\<close>

lemma Attach_registers:
  assumes "JNIHook_Attach C H j m t s = (Returns r, s')"
    and "r = JNIHOOK_OK \<or> r = JNIHOOK_ERR_CLASSFILE_CACHE \<or> r = JNIHOOK_ERR_PATCH_CLASSFILE"
  shows "\<exists>clazz mi. GetMethodDeclaringClass H m = Some clazz
           \<and> get_method_info H m = Some mi
           \<and> g_hooks s' = push_back (g_hooks s) (get_class_name H clazz)
                             \<lparr>method_info = mi, native_hook_method = t\<rparr>"
  using assms
  by (auto simp add: JNIHook_Attach_def Let_def deliver_frame split: option.splits if_splits)

subsection \<open>The search for the class index\<close>

lemma scan_classes_not_found:
  "scan_classes cf cn i items = Some 0 \<Longrightarrow> 0 < i \<Longrightarrow> item \<in> set items \<Longrightarrow>
   tag item = CONSTANT_Class \<Longrightarrow>
   \<exists>nm. utf8_string cf (Class_name_index item) = Some nm \<and> nm \<noteq> cn"
  by (induction cf cn i items rule: scan_classes.induct)
     (auto split: option.splits if_splits)

lemma find_class_index_not_found:
  "find_class_index cf cn = Some 0 \<Longrightarrow> item \<in> set (drop 1 (constant_pool cf)) \<Longrightarrow>
   tag item = CONSTANT_Class \<Longrightarrow> utf8_string cf (Class_name_index item) \<noteq> Some cn"
  using scan_classes_not_found [of cf cn 1 "drop 1 (constant_pool cf)" item]
  by (auto simp add: find_class_index_def)

lemma scan_classes_found:
  "scan_classes cf cn i items = Some k \<Longrightarrow> 0 < k \<Longrightarrow> 0 < i \<Longrightarrow>
   i \<le> k \<and> k < i + length items
   \<and> tag (items ! (k - i)) = CONSTANT_Class
   \<and> utf8_string cf (Class_name_index (items ! (k - i))) = Some cn"
proof (induction items arbitrary: i)
  case Nil
  then show ?case by simp
next
  case (Cons item items)
  show ?case
  proof (cases "tag item = CONSTANT_Class \<and> utf8_string cf (Class_name_index item) = Some cn")
    case True
    with Cons.prems show ?thesis by auto
  next
    case False
    with Cons.prems have rest: "scan_classes cf cn (Suc i) items = Some k"
      by (auto split: option.splits if_splits)
    from Cons.IH [OF rest] Cons.prems
    have "Suc i \<le> k \<and> k < Suc i + length items
          \<and> tag (items ! (k - Suc i)) = CONSTANT_Class
          \<and> utf8_string cf (Class_name_index (items ! (k - Suc i))) = Some cn"
      by simp
    moreover from this have "k - i = Suc (k - Suc i)" by arith
    ultimately show ?thesis by auto
  qed
qed

lemma find_class_index_found:
  assumes "find_class_index cf cn = Some k" and "0 < k"
  shows "k < length (constant_pool cf)
         \<and> tag (constant_pool cf ! k) = CONSTANT_Class
         \<and> utf8_string cf (Class_name_index (constant_pool cf ! k)) = Some cn"
proof -
  from scan_classes_found [of cf cn 1 "drop 1 (constant_pool cf)" k] assms
  have f: "1 \<le> k" "k < 1 + length (drop 1 (constant_pool cf))"
    "tag (drop 1 (constant_pool cf) ! (k - 1)) = CONSTANT_Class"
    "utf8_string cf (Class_name_index (drop 1 (constant_pool cf) ! (k - 1))) = Some cn"
    by (simp_all add: find_class_index_def)
  from f(1,2) have len: "k < length (constant_pool cf)" by simp
  with f(1) have "drop 1 (constant_pool cf) ! (k - 1) = constant_pool cf ! k"
    by simp
  with f(3,4) len show ?thesis by simp
qed

section \<open>The claims\<close>

subsection \<open>C1: the document handed to redefinition\<close>

text \<open>
  C1. The claim: for every Attach call that returns success, the method record matching
  the target's resolved name and descriptor, in the document that is serialized and
  passed to class redefinition, has its native access flag set and carries no Code
  attribute. The code at the claim's own scenario: Attach on \<open>run()V\<close> of \<open>demo.Foo\<close>
  returns \<open>JNIHOOK_OK\<close>, the machine accepts the redefinition, and the document it was
  handed is the cached \<open>Foo_doc\<close>, whose record for \<open>run()V\<close> is not native and has its
  Code attribute.
\<close>

theorem Attach_submits_unpatched_document:
  "JNIHook_Attach plain_codec vm0 h0 7 4096 s_live = (Returns JNIHOOK_OK, s_run)
   \<and> fst (RedefineClasses vm0 11 (bytes plain_codec Foo_doc))
   \<and> vm_class_bytes s_run 11 = Some (bytes plain_codec Foo_doc)
   \<and> find_method Foo_doc ''run'' ''()V'' = Some run_rec
   \<and> \<not> is_native run_rec
   \<and> has_Code run_rec"
  by (simp add: Attach_run vm0_sel plain_codec_sel Foo_doc_methods Foo_methods_unpatched s_run_sel)

subsection \<open>C2: the trampoline address\<close>

text \<open>
  C2, as the claim states it, fails: Attach on \<open>run()V\<close> returns success, the machine
  accepted the redefinition, and no native implementation is bound for the method.
\<close>

theorem Attach_binds_no_native_counterexample:
  "JNIHook_Attach plain_codec vm0 h0 7 4096 s_live = (Returns JNIHOOK_OK, s_run)
   \<and> fst (RedefineClasses vm0 11 (bytes plain_codec Foo_doc))
   \<and> vm_natives s_run (11, ''run'', ''()V'') \<noteq> Some 4096"
  by (simp add: Attach_run vm0_sel s_run_sel)

text \<open>
  C2, amended. For every Attach call that returns success, the machine's native-method
  bindings are what they were before the call, and the trampoline address passed to
  Attach is recorded with the target's name and descriptor in the hook record appended
  under the class's key.
\<close>

theorem Attach_records_trampoline:
  assumes "JNIHook_Attach C H j m t s = (Returns JNIHOOK_OK, s')"
  shows "vm_natives s' = vm_natives s
         \<and> (\<exists>clazz mi. GetMethodDeclaringClass H m = Some clazz
               \<and> get_method_info H m = Some mi
               \<and> g_hooks s' (get_class_name H clazz) =
                   Some ((case g_hooks s (get_class_name H clazz) of None \<Rightarrow> [] | Some v \<Rightarrow> v)
                         @ [\<lparr>method_info = mi, native_hook_method = t\<rparr>]))"
proof -
  from Attach_vm_natives [of C H j m t s] assms have "vm_natives s' = vm_natives s"
    by simp
  moreover from Attach_registers [OF assms] obtain clazz mi where
    "GetMethodDeclaringClass H m = Some clazz" "get_method_info H m = Some mi"
    "g_hooks s' = push_back (g_hooks s) (get_class_name H clazz)
                    \<lparr>method_info = mi, native_hook_method = t\<rparr>"
    by auto
  ultimately show ?thesis
    by (auto simp add: push_back_lookup)
qed

theorem Attach_records_trampoline_witness:
  "JNIHook_Attach plain_codec vm0 h0 7 4096 s_live = (Returns JNIHOOK_OK, s_run)
   \<and> vm_natives s_run = vm_natives s_live
   \<and> g_hooks s_live ''demo/Foo'' = None
   \<and> g_hooks s_run ''demo/Foo'' =
       Some [\<lparr>method_info = \<lparr>name = ''run'', signature = ''()V''\<rparr>, native_hook_method = 4096\<rparr>]"
proof -
  have "g_hooks s_live ''demo/Foo'' = None"
    by (simp add: s_live_sel)
  with Attach_records_trampoline [OF Attach_run] Attach_run show ?thesis
    by (simp add: vm0_sel get_method_info_vm0 get_class_name_vm0)
qed

subsection \<open>C3: a refused redefinition\<close>

text \<open>
  C3. The claim: when the class redefinition request fails, Attach returns that failure
  as a typed error, and the hook record appended earlier stays registered. The code on a
  machine that refuses the redefinition: the class keeps its bytes, the hook record
  stays registered, and Attach returns \<open>JNIHOOK_OK\<close>.
\<close>

theorem Attach_returns_OK_on_refused_redefinition:
  "fst (RedefineClasses vm_refuse 11 (bytes plain_codec Foo_doc)) = False
   \<and> JNIHook_Attach plain_codec vm_refuse h0 7 4096 s_live = (Returns JNIHOOK_OK, s_refused)
   \<and> vm_class_bytes s_refused 11 = vm_class_bytes s_live 11
   \<and> g_hooks s_refused ''demo/Foo'' = Some [run_hook]"
  by (simp add: Attach_refused vm_refuse_sel s_refused_sel s_live_sel)

subsection \<open>C4: a second Attach on the same class\<close>

text \<open>
  C4, as the claim states it, fails: after a successful Attach on \<open>run()V\<close> the cache
  entry is the document as it was loaded, and after a successful Attach on \<open>stop()V\<close>
  the document handed to the redefinition is that same document; in it neither method
  is native and both have their Code attribute.
\<close>

theorem Attach_twice_counterexample:
  "JNIHook_Attach plain_codec vm0 h0 7 4096 s_live = (Returns JNIHOOK_OK, s_run)
   \<and> g_class_file_cache s_run ''demo/Foo'' = Some Foo_doc
   \<and> JNIHook_Attach plain_codec vm0 h0 8 8192 s_run = (Returns JNIHOOK_OK, s_both)
   \<and> g_class_file_cache s_both ''demo/Foo'' = Some Foo_doc
   \<and> vm_class_bytes s_both 11 = Some (bytes plain_codec Foo_doc)
   \<and> find_method Foo_doc ''run'' ''()V'' = Some run_rec
   \<and> find_method Foo_doc ''stop'' ''()V'' = Some stop_rec
   \<and> \<not> is_native run_rec \<and> has_Code run_rec
   \<and> \<not> is_native stop_rec \<and> has_Code stop_rec"
  by (simp add: Attach_run Attach_stop plain_codec_sel Foo_doc_methods Foo_methods_unpatched
        s_run_sel s_both_sel)

text \<open>
  C4, amended. A successful Attach does not write the cache: for a class that already
  has a cache entry, the entry after a successful Attach on one of its methods is the
  document that was there before the call. So after a successful Attach on a method of
  a class, a later successful Attach on another method of that class finds in the cache,
  and leaves there, the document the earlier call left.
\<close>

theorem Attach_keeps_cache_entry:
  assumes "JNIHook_Attach C H j m t s = (Returns JNIHOOK_OK, s')"
    and "GetMethodDeclaringClass H m = Some clazz"
    and "g_class_file_cache s (get_class_name H clazz) = Some doc"
  shows "g_class_file_cache s' (get_class_name H clazz) = Some doc"
  using Attach_cache_keep [OF assms(3), of C H j m t] assms(1) by simp

theorem Attach_keeps_cache_entry_witness:
  "JNIHook_Attach plain_codec vm0 h0 8 8192 s_run = (Returns JNIHOOK_OK, s_both)
   \<and> GetMethodDeclaringClass vm0 8 = Some 11
   \<and> g_class_file_cache s_run (get_class_name vm0 11) = Some Foo_doc
   \<and> g_class_file_cache s_both (get_class_name vm0 11) = Some Foo_doc"
proof -
  have cached: "g_class_file_cache s_run (get_class_name vm0 11) = Some Foo_doc"
    by (simp add: s_run_sel get_class_name_vm0)
  have clazz: "GetMethodDeclaringClass vm0 8 = Some 11"
    by (simp add: vm0_sel)
  from Attach_keeps_cache_entry [OF Attach_stop clazz cached] cached clazz Attach_stop
  show ?thesis
    by simp
qed

subsection \<open>C5: when the callback fills the cache\<close>

text \<open>
  C5. On every delivery of the class-load notification, the cache changes only if the
  registry has at least one record under the class's key and no document is cached
  under that key; the change is then the insertion of the loaded document under that
  key. A document that is cached stays cached, unchanged, through every later sequence of
  notifications. The state is any state the process can reach from its start.
\<close>

theorem class_load_cache_policy:
  assumes "reachable C s"
  shows "(g_class_file_cache (JNIHook_ClassFileLoadHook C H c d s) \<noteq> g_class_file_cache s \<longrightarrow>
            (\<exists>h hs cf. g_hooks s (get_class_name H c) = Some (h # hs)
               \<and> g_class_file_cache s (get_class_name H c) = None
               \<and> load C d = Some cf
               \<and> g_class_file_cache (JNIHook_ClassFileLoadHook C H c d s)
                   = (g_class_file_cache s)(get_class_name H c \<mapsto> cf)))
       \<and> (g_class_file_cache s n = Some doc \<longrightarrow>
            g_class_file_cache (deliver C H evs s) n = Some doc)"
proof (intro conjI impI)
  assume changed: "g_class_file_cache (JNIHook_ClassFileLoadHook C H c d s) \<noteq> g_class_file_cache s"
  let ?cn = "get_class_name H c"
  from changed have reg: "g_hooks s ?cn \<noteq> None" and fresh: "g_class_file_cache s ?cn = None"
    by (auto simp add: JNIHook_ClassFileLoadHook_def Let_def split: if_splits)
  from changed fresh reg obtain cf where cf: "load C d = Some cf"
    by (cases "load C d") (auto simp add: JNIHook_ClassFileLoadHook_def Let_def split: if_splits)
  from changed have ne: "?cn \<noteq> []"
    by (auto simp add: JNIHook_ClassFileLoadHook_def Let_def split: if_splits)
  from reg obtain v where v: "g_hooks s ?cn = Some v" by auto
  with reachable_hooks_nonempty [OF assms] have "v \<noteq> []"
    by (auto simp add: hooks_nonempty_def ran_def)
  then obtain h hs where "v = h # hs" by (cases v) auto
  with v cf fresh ne reg
  show "\<exists>h hs cf. g_hooks s ?cn = Some (h # hs)
               \<and> g_class_file_cache s ?cn = None
               \<and> load C d = Some cf
               \<and> g_class_file_cache (JNIHook_ClassFileLoadHook C H c d s)
                   = (g_class_file_cache s)(?cn \<mapsto> cf)"
    by (simp add: JNIHook_ClassFileLoadHook_def Let_def)
next
  assume "g_class_file_cache s n = Some doc"
  then show "g_class_file_cache (deliver C H evs s) n = Some doc"
    by (rule deliver_cache_keep)
qed

theorem class_load_cache_policy_witness:
  "reachable plain_codec s_pending
   \<and> g_class_file_cache (JNIHook_ClassFileLoadHook plain_codec vm0 11 Foo_doc s_pending)
       \<noteq> g_class_file_cache s_pending
   \<and> g_hooks s_pending (get_class_name vm0 11) = Some [run_hook]
   \<and> g_class_file_cache s_pending (get_class_name vm0 11) = None
   \<and> g_class_file_cache (JNIHook_ClassFileLoadHook plain_codec vm0 11 Foo_doc s_pending)
       = (g_class_file_cache s_pending)(''demo/Foo'' \<mapsto> Foo_doc)
   \<and> g_class_file_cache
        (deliver plain_codec vm0 [\<lparr>class_being_redefined = 11, class_data = Anon_doc\<rparr>]
           (JNIHook_ClassFileLoadHook plain_codec vm0 11 Foo_doc s_pending)) ''demo/Foo''
       = Some Foo_doc"
proof -
  let ?s' = "JNIHook_ClassFileLoadHook plain_codec vm0 11 Foo_doc s_pending"
  have inv: "reachable plain_codec s_pending"
    by (rule reachable_examples)
  have cached: "g_class_file_cache ?s' ''demo/Foo'' = Some Foo_doc"
    by (simp add: hook_vm0_Foo s_pending_sel)
  have before: "g_class_file_cache s_pending ''demo/Foo'' = None"
    by (simp add: s_pending_sel)
  have changed: "g_class_file_cache ?s' \<noteq> g_class_file_cache s_pending"
  proof
    assume "g_class_file_cache ?s' = g_class_file_cache s_pending"
    then have "g_class_file_cache ?s' ''demo/Foo'' = g_class_file_cache s_pending ''demo/Foo''"
      by simp
    with cached before show False by simp
  qed
  have inv': "reachable plain_codec ?s'"
    using inv by (rule reachable.load)
  have reg: "g_hooks s_pending ''demo/Foo'' = Some [run_hook]"
    by (simp add: s_pending_sel)
  have later: "g_class_file_cache
        (deliver plain_codec vm0 [\<lparr>class_being_redefined = 11, class_data = Anon_doc\<rparr>] ?s')
        ''demo/Foo'' = Some Foo_doc"
    using class_load_cache_policy [OF inv', of vm0 11 Anon_doc "''demo/Foo''" Foo_doc
        "[\<lparr>class_being_redefined = 11, class_data = Anon_doc\<rparr>]"] cached
    by simp
  have first: "g_class_file_cache ?s' = (g_class_file_cache s_pending)(''demo/Foo'' \<mapsto> Foo_doc)"
    using class_load_cache_policy [OF inv, of vm0 11 Foo_doc "''demo/Foo''" Foo_doc "[]"]
      changed by (auto simp add: get_class_name_vm0 plain_codec_sel)
  show ?thesis
    using inv changed first before reg later by (simp add: get_class_name_vm0)
qed

subsection \<open>C6: one key for both spellings\<close>

text \<open>
  C6. For every class name, given by its segments, \<open>get_class_name\<close> maps the dotted
  spelling \<open>a.b.C\<close> and the slash-delimited spelling \<open>a/b/C\<close>, whichever of the two the
  reflective \<open>getName\<close> call reports, to the same string: the slash-delimited one. That
  string is the key under which \<open>JNIHook_Attach\<close> registers the hook and looks the cache
  up, and under which \<open>JNIHook_ClassFileLoadHook\<close> looks the registry up and fills the
  cache.
\<close>

theorem canonical_key_of_both_spellings:
  assumes "list_all (\<lambda>seg. CHR ''.'' \<notin> set seg) segs"
    and "FindClass H ''java/lang/Class'' \<noteq> 0"
    and "GetMethodID H (FindClass H ''java/lang/Class'') ''getName'' ''()Ljava/lang/String;'' \<noteq> 0"
    and "CallObjectMethod H clazz
           (GetMethodID H (FindClass H ''java/lang/Class'') ''getName'' ''()Ljava/lang/String;'') \<noteq> 0"
    and "GetStringUTFChars H
           (CallObjectMethod H clazz
             (GetMethodID H (FindClass H ''java/lang/Class'') ''getName'' ''()Ljava/lang/String;''))
         = Some c_name"
    and "c_name = join_with CHR ''.'' segs \<or> c_name = join_with CHR ''/'' segs"
  shows "get_class_name H clazz = join_with CHR ''/'' segs"
proof -
  have "get_class_name H clazz = replace_dots c_name"
    using assms(2-5) by (rule get_class_name_reflected)
  moreover have "replace_dots c_name = join_with CHR ''/'' segs"
    using assms(1,6) by (auto simp add: replace_dots_join map_replace_dots_id)
  ultimately show ?thesis by simp
qed

theorem canonical_key_of_both_spellings_witness:
  "list_all (\<lambda>seg. CHR ''.'' \<notin> set seg) [''demo'', ''Foo'']
   \<and> GetStringUTFChars vm0 70 = Some (join_with CHR ''.'' [''demo'', ''Foo''])
   \<and> get_class_name vm0 11 = ''demo/Foo''
   \<and> GetStringUTFChars (vm0\<lparr>GetStringUTFChars := (\<lambda>obj. Some ''demo/Foo'')\<rparr>) 70
       = Some (join_with CHR ''/'' [''demo'', ''Foo''])
   \<and> get_class_name (vm0\<lparr>GetStringUTFChars := (\<lambda>obj. Some ''demo/Foo'')\<rparr>) 11 = ''demo/Foo''"
  using canonical_key_of_both_spellings [of "[''demo'', ''Foo'']" vm0 11 "''demo.Foo''"]
    canonical_key_of_both_spellings
      [of "[''demo'', ''Foo'']" "vm0\<lparr>GetStringUTFChars := (\<lambda>obj. Some ''demo/Foo'')\<rparr>" 11 "''demo/Foo''"]
  by (simp add: vm0_sel)

subsection \<open>C7: a target method that the cached document does not have\<close>

text \<open>
  C7. The claim: for every Attach call that reaches the patch step with a cached
  document, if no method record of that document has a resolved name and descriptor
  matching the target method, Attach returns the patch error. The code at such a call:
  the cached document of \<open>demo.Foo\<close> has no method \<open>missing()V\<close>, Attach on that
  method finds the class index, prints the methods the document has, and returns
  \<open>JNIHOOK_OK\<close>, not \<open>JNIHOOK_ERR_PATCH_CLASSFILE\<close>.
\<close>

theorem Attach_returns_OK_on_missing_method:
  "get_method_info vm0 9 = Some \<lparr>name = ''missing'', signature = ''()V''\<rparr>
   \<and> JNIHook_Attach plain_codec vm0 h0 9 4096 s_live = (Returns JNIHOOK_OK, s_missing)
   \<and> g_class_file_cache s_missing ''demo/Foo'' = Some Foo_doc
   \<and> find_class_index Foo_doc ''demo/Foo'' = Some 3
   \<and> find_method Foo_doc ''missing'' ''()V'' = None
   \<and> fst (JNIHook_Attach plain_codec vm0 h0 9 4096 s_live) \<noteq> Returns JNIHOOK_ERR_PATCH_CLASSFILE"
  by (simp add: get_method_info_vm0 Attach_missing s_missing_sel Foo_doc_methods
        Foo_doc_class_index)

subsection \<open>C8: a failing initialization\<close>

lemma vm_init_variants:
  "failing_step vm_no_events = Some Step_SetEventNotificationMode"
  "failing_step vm_no_potential = Some Step_GetPotentialCapabilities"
  "failing_step vm_no_caps = Some Step_AddCapabilities"
  by (simp_all add: failing_step_def vm_no_events_def vm_no_potential_def vm_no_caps_def vm0_sel)

lemma Init_no_events:
  "JNIHook_Init vm_no_events 300 h_null s0 =
     (Returns JNIHOOK_ERR_SETUP_CLASS_FILE_LOAD_HOOK, h_null,
      s0\<lparr>vm_capabilities := {can_redefine_classes, can_redefine_any_class,
                             can_retransform_classes, can_retransform_any_class},
         vm_ClassFileLoadHook := True\<rparr>)"
  by (simp add: JNIHook_Init_def Let_def vm_no_events_def vm0_sel s0_def)

lemma Init_no_potential:
  "JNIHook_Init vm_no_potential 300 h_null s0 = (Returns JNIHOOK_ERR_ADD_JVMTI_CAPS, h_null, s0)"
  by (simp add: JNIHook_Init_def Let_def vm_no_potential_def vm0_sel)

lemma Init_no_caps:
  "JNIHook_Init vm_no_caps 300 h_null s0 = (Returns JNIHOOK_ERR_ADD_JVMTI_CAPS, h_null, s0)"
  by (simp add: JNIHook_Init_def Let_def vm_no_caps_def vm0_sel)

text \<open>
  C8, as the claim states it, fails twice. When enabling the notification is the step
  that fails, Init returns an error and the callback that the step before installed is
  still in the machine's callback table. And two different steps, querying the
  potential capabilities and adding them, return the same error kind.
\<close>

theorem Init_failure_counterexample:
  "failing_step vm_no_events = Some Step_SetEventNotificationMode
   \<and> fst (JNIHook_Init vm_no_events 300 h_null s0) = Returns JNIHOOK_ERR_SETUP_CLASS_FILE_LOAD_HOOK
   \<and> vm_ClassFileLoadHook s0 = False
   \<and> vm_ClassFileLoadHook (snd (snd (JNIHook_Init vm_no_events 300 h_null s0))) = True
   \<and> failing_step vm_no_potential = Some Step_GetPotentialCapabilities
   \<and> failing_step vm_no_caps = Some Step_AddCapabilities
   \<and> fst (JNIHook_Init vm_no_potential 300 h_null s0) = fst (JNIHook_Init vm_no_caps 300 h_null s0)"
  by (simp add: vm_init_variants Init_no_events Init_no_potential Init_no_caps)
     (simp add: s0_def)

text \<open>
  C8, amended. For every initialization call in which a step fails (and the handles the
  machine returned before it are not null), Init returns the error kind of that step,
  never success: \<open>GET_JVM\<close>, \<open>GET_JVMTI\<close>, \<open>ADD_JVMTI_CAPS\<close> for both capability steps,
  \<open>SETUP_CLASS_FILE_LOAD_HOOK\<close> for both callback steps. It leaves the handle bundle, the
  two tables and the notification mode as they were. The machine's callback table is as
  it was unless the failing step is the enabling of the notification; then the callback
  stays installed.
\<close>

theorem Init_failure:
  assumes "failing_step H = Some st"
    and "e \<noteq> 0" and "GetJavaVM H \<noteq> Some 0" and "GetEnv H \<noteq> Some 0"
  shows "fst (JNIHook_Init H e j s) = Returns (step_error st)
         \<and> step_error st \<noteq> JNIHOOK_OK
         \<and> fst (snd (JNIHook_Init H e j s)) = j
         \<and> g_hooks (snd (snd (JNIHook_Init H e j s))) = g_hooks s
         \<and> g_class_file_cache (snd (snd (JNIHook_Init H e j s))) = g_class_file_cache s
         \<and> vm_notification_enabled (snd (snd (JNIHook_Init H e j s))) = vm_notification_enabled s
         \<and> vm_ClassFileLoadHook (snd (snd (JNIHook_Init H e j s)))
             = (vm_ClassFileLoadHook s \<or> st = Step_SetEventNotificationMode)"
  using assms
  by (cases st)
     (auto simp add: failing_step_def JNIHook_Init_def Let_def split: option.splits if_splits)

theorem Init_failure_witness:
  "failing_step vm_no_events = Some Step_SetEventNotificationMode
   \<and> GetJavaVM vm_no_events = Some 100 \<and> GetEnv vm_no_events = Some 200
   \<and> fst (JNIHook_Init vm_no_events 300 h_null s0) = Returns JNIHOOK_ERR_SETUP_CLASS_FILE_LOAD_HOOK
   \<and> fst (snd (JNIHook_Init vm_no_events 300 h_null s0)) = h_null
   \<and> vm_notification_enabled (snd (snd (JNIHook_Init vm_no_events 300 h_null s0))) = False
   \<and> vm_ClassFileLoadHook (snd (snd (JNIHook_Init vm_no_events 300 h_null s0))) = True
   \<and> failing_step vm_no_caps = Some Step_AddCapabilities
   \<and> fst (JNIHook_Init vm_no_caps 300 h_null s0) = Returns JNIHOOK_ERR_ADD_JVMTI_CAPS
   \<and> vm_ClassFileLoadHook (snd (snd (JNIHook_Init vm_no_caps 300 h_null s0))) = False"
proof -
  have vm: "GetJavaVM vm_no_events = Some 100" "GetEnv vm_no_events = Some 200"
    "GetJavaVM vm_no_caps = Some 100" "GetEnv vm_no_caps = Some 200"
    by (simp_all add: vm_no_events_def vm_no_caps_def vm0_sel)
  have "\<not> vm_notification_enabled s0" "\<not> vm_ClassFileLoadHook s0"
    by (simp_all add: s0_def)
  with Init_failure [OF vm_init_variants(1), of 300 h_null s0]
    Init_failure [OF vm_init_variants(3), of 300 h_null s0] vm
  show ?thesis
    by (simp add: vm_init_variants)
qed

subsection \<open>C9: shutdown\<close>

lemma Shutdown_vm0:
  "JNIHook_Shutdown vm0 h0 s_live =
     (Returns (), h_null, s_live\<lparr>vm_notification_enabled := False, vm_ClassFileLoadHook := False\<rparr>)"
  by (simp add: JNIHook_Shutdown_def Let_def vm0_sel h0_def h_null_def)

text \<open>
  C9, as the claim states it, fails: a second call of Shutdown, on the handle bundle
  that the first call zeroed, dereferences the null \<open>jvmti\<close> pointer.
\<close>

theorem Shutdown_twice_counterexample:
  "fst (JNIHook_Shutdown vm0 h0 s_live) = Returns ()
   \<and> fst (snd (JNIHook_Shutdown vm0 h0 s_live)) = \<lparr>jvm = 0, env = 0, jvmti = 0\<rparr>
   \<and> fst (JNIHook_Shutdown vm0 (fst (snd (JNIHook_Shutdown vm0 h0 s_live)))
            (snd (snd (JNIHook_Shutdown vm0 h0 s_live)))) = Crashes"
  by (simp add: Shutdown_vm0) (simp add: JNIHook_Shutdown_def h_null_def)

text \<open>
  C9, amended. Called on a handle bundle whose \<open>jvmti\<close> pointer is not null, Shutdown
  returns, zeroes every field of the bundle and leaves the registry and the cache
  unchanged; it asks the machine to disable the notification and to clear the callback
  table, and each request takes effect when the machine accepts it (Shutdown ignores
  both answers).
\<close>

theorem Shutdown_live_handle:
  assumes "jvmti j \<noteq> 0"
  shows "fst (JNIHook_Shutdown H j s) = Returns ()
         \<and> fst (snd (JNIHook_Shutdown H j s)) = \<lparr>jvm = 0, env = 0, jvmti = 0\<rparr>
         \<and> g_hooks (snd (snd (JNIHook_Shutdown H j s))) = g_hooks s
         \<and> g_class_file_cache (snd (snd (JNIHook_Shutdown H j s))) = g_class_file_cache s
         \<and> vm_notification_enabled (snd (snd (JNIHook_Shutdown H j s)))
             = (if SetEventNotificationMode H False then False else vm_notification_enabled s)
         \<and> vm_ClassFileLoadHook (snd (snd (JNIHook_Shutdown H j s)))
             = (if SetEventCallbacks H False then False else vm_ClassFileLoadHook s)"
  using assms by (simp add: JNIHook_Shutdown_def Let_def)

theorem Shutdown_live_handle_witness:
  "jvmti h0 \<noteq> 0
   \<and> fst (JNIHook_Shutdown vm0 h0 s_run) = Returns ()
   \<and> fst (snd (JNIHook_Shutdown vm0 h0 s_run)) = \<lparr>jvm = 0, env = 0, jvmti = 0\<rparr>
   \<and> g_hooks (snd (snd (JNIHook_Shutdown vm0 h0 s_run))) = [''demo/Foo'' \<mapsto> [run_hook]]
   \<and> g_class_file_cache (snd (snd (JNIHook_Shutdown vm0 h0 s_run))) = [''demo/Foo'' \<mapsto> Foo_doc]
   \<and> vm_notification_enabled (snd (snd (JNIHook_Shutdown vm0 h0 s_run))) = False
   \<and> vm_ClassFileLoadHook (snd (snd (JNIHook_Shutdown vm0 h0 s_run))) = False"
proof -
  have live: "jvmti h0 \<noteq> 0"
    by (simp add: h0_def)
  from Shutdown_live_handle [OF live, of vm0 s_run] live show ?thesis
    by (simp add: vm0_sel s_run_sel)
qed

subsection \<open>C10: the hook record after a failed Attach\<close>

text \<open>
  C10. For every Attach call that returns the cache-miss error or the patch error (so it
  has resolved the declaring class, the class name and the method's name and
  descriptor), the hook record appended for that call, with the method's name and
  descriptor and the trampoline address, is the last record under the class's key in
  the registry when Attach returns.
\<close>

theorem Attach_failure_keeps_hook_record:
  assumes "JNIHook_Attach C H j m t s = (Returns r, s')"
    and "r = JNIHOOK_ERR_CLASSFILE_CACHE \<or> r = JNIHOOK_ERR_PATCH_CLASSFILE"
  shows "\<exists>clazz mi. GetMethodDeclaringClass H m = Some clazz
           \<and> get_method_info H m = Some mi
           \<and> g_hooks s' (get_class_name H clazz) =
               Some ((case g_hooks s (get_class_name H clazz) of None \<Rightarrow> [] | Some v \<Rightarrow> v)
                     @ [\<lparr>method_info = mi, native_hook_method = t\<rparr>])"
proof -
  from assms have "r = JNIHOOK_OK \<or> r = JNIHOOK_ERR_CLASSFILE_CACHE \<or> r = JNIHOOK_ERR_PATCH_CLASSFILE"
    by auto
  from Attach_registers [OF assms(1) this] show ?thesis
    by (auto simp add: push_back_lookup)
qed

theorem Attach_failure_keeps_hook_record_witness:
  "JNIHook_Attach plain_codec vm_silent h0 7 4096 s_live
     = (Returns JNIHOOK_ERR_CLASSFILE_CACHE, s_pending)
   \<and> JNIHook_Attach plain_codec vm_anon h0 7 4096 s_live
     = (Returns JNIHOOK_ERR_PATCH_CLASSFILE, s_anon)
   \<and> g_hooks s_live ''demo/Foo'' = None
   \<and> g_hooks s_pending ''demo/Foo'' =
       Some [\<lparr>method_info = \<lparr>name = ''run'', signature = ''()V''\<rparr>, native_hook_method = 4096\<rparr>]
   \<and> g_hooks s_anon ''demo/Foo'' =
       Some [\<lparr>method_info = \<lparr>name = ''run'', signature = ''()V''\<rparr>, native_hook_method = 4096\<rparr>]"
proof -
  have before: "g_hooks s_live ''demo/Foo'' = None"
    by (simp add: s_live_sel)
  from Attach_failure_keeps_hook_record [OF Attach_silent]
    Attach_failure_keeps_hook_record [OF Attach_anon] before Attach_silent Attach_anon
  show ?thesis
    by (simp add: vm_silent_sel vm_anon_sel vm0_sel get_class_name_variants
          get_method_info_variants get_method_info_vm0)
qed

end
